theory Spec2Isabelle
  imports Main "HOL-Library.Sublist"
begin

section \<open>JavaScript values and string operations used by the handlers\<close>

text \<open>
  The application is a React root component (\<^verbatim>\<open>App\<close>, second part of
  \<^verbatim>\<open>src/pages/AuthPage.tsx\<close>) and an Express handler (\<^verbatim>\<open>src/api/index.ts\<close>).
  Strings are \<^typ>\<open>string\<close>; \<^verbatim>\<open>null\<close> and \<^verbatim>\<open>undefined\<close> are \<^term>\<open>None\<close>.
  A thrown value is an \<^verbatim>\<open>Error\<close> object, of which only the message is observed.
  An awaited call either resolves to a value or rejects with an error.
\<close>

datatype js_error = Error (message: string)

datatype 'a settled = Resolved 'a | Rejected js_error

text \<open>
  Truthiness of a \<^verbatim>\<open>string | null\<close> value, as tested by \<^verbatim>\<open>if (v)\<close>, \<^verbatim>\<open>!v\<close> and
  \<^verbatim>\<open>v || w\<close>: \<^verbatim>\<open>null\<close> and the empty string are falsy.
\<close>

definition truthy :: "string option \<Rightarrow> bool" where
  "truthy v = (case v of None \<Rightarrow> False | Some s \<Rightarrow> s \<noteq> [])"

text \<open>\<^verbatim>\<open>str.split(sep)\<close> for a one-character separator; the empty string splits to \<^verbatim>\<open>[""]\<close>.\<close>

fun split_on :: "char \<Rightarrow> string \<Rightarrow> string list" where
  "split_on sep [] = [[]]"
| "split_on sep (c # cs) =
     (if c = sep then [] # split_on sep cs
      else (case split_on sep cs of [] \<Rightarrow> [[c]] | p # ps \<Rightarrow> (c # p) # ps))"

text \<open>\<^verbatim>\<open>xs[i]\<close>: reading past the end gives \<^verbatim>\<open>undefined\<close>.\<close>

definition at_index :: "'a list \<Rightarrow> nat \<Rightarrow> 'a option" where
  "at_index xs i = (if i < length xs then Some (xs ! i) else None)"

text \<open>
  The template literal \<^verbatim>\<open>${Date.now()}\<close>: the decimal digits of an integer number
  (\<^verbatim>\<open>Date.now()\<close> is an integer of magnitude below \<open>10\<^sup>2\<^sup>1\<close>, so no exponent is printed).
\<close>

definition digit_char :: "nat \<Rightarrow> char" where
  "digit_char d = ''0123456789'' ! d"

fun string_of_nat :: "nat \<Rightarrow> string" where
  "string_of_nat n =
     (if n < 10 then [digit_char n]
      else string_of_nat (n div 10) @ [digit_char (n mod 10)])"

declare string_of_nat.simps [simp del]

definition js_number_string :: "int \<Rightarrow> string" where
  "js_number_string i =
     (if i < 0 then CHR ''-'' # string_of_nat (nat (- i)) else string_of_nat (nat i))"

section \<open>Data model\<close>

text \<open>
  \<^verbatim>\<open>User\<close>, \<^verbatim>\<open>GeneratedAsset\<close> and \<^verbatim>\<open>CollectionAsset\<close> come from \<^verbatim>\<open>./types\<close>; their
  fields are those of the object literals the component builds. The two asset types share
  the fields of \<open>asset\<close>.
\<close>

record user =
  id' :: string
  email :: string
  username :: string
  avatar :: "string option"

record asset =
  id' :: string
  user_id :: string
  image_url :: string
  display_url :: string
  created_at :: string

record generated_asset = asset +
  source_feature :: string

datatype asset_kind = individual | composed

record collection_asset = asset +
  asset_type :: asset_kind
  item_name :: string
  item_category :: string

text \<open>The argument of \<^verbatim>\<open>handleSaveToCollection\<close>.\<close>

record asset_data =
  imageUrl :: string
  asset_type :: asset_kind
  item_name :: string
  item_category :: string

text \<open>The session object of the identity provider, the profile row and the query's result.\<close>

record supabase_user =
  id' :: string
  email :: "string option"

record session =
  user :: supabase_user

record profile =
  username :: "string option"
  avatar_url :: "string option"

record profile_response =
  data :: "profile option"
  error :: "js_error option"

text \<open>
  \<^verbatim>\<open>PATHS\<close> comes from \<^verbatim>\<open>./constants/paths\<close>, which is not among the sources: the three
  routes the component names are parameters of the model.
\<close>

record paths =
  LANDING :: string
  AUTH :: string
  HOME :: string

section \<open>Effects and component state\<close>

text \<open>
  What a handler does to the outside world is recorded in order: console output, router
  navigation (\<^verbatim>\<open>navigate(path, {replace})\<close>), calls to the remote services and timers.
\<close>

datatype remote_call =
    SaveAsset string "string option" string
  | SaveAssetToCollection string "string option" asset_kind string string
  | DeleteAsset string string
  | DeleteAssetFromCollection string string
  | GetAssetsForUser string
  | GetAssetsFromCollection string
  | ProfileQuery string
  | SignOut

text \<open>
  What the \<^verbatim>\<open>catch\<close> clause of the server handler may receive: an \<^verbatim>\<open>Error\<close> object, or
  any other thrown value (a string, a number, \<^verbatim>\<open>undefined\<close>), which has no \<^verbatim>\<open>message\<close>.
\<close>

datatype thrown = Thrown_error js_error | Thrown_value

datatype 'a attempt = Succeeds 'a | Throws thrown

datatype effect =
    ConsoleError string "js_error option"
  | ConsoleErrorThrown string thrown
  | ConsoleWarn string string
  | Navigate string bool
  | Remote remote_call
  | SetTimeout nat

text \<open>
  The \<^verbatim>\<open>useState\<close> cells of \<^verbatim>\<open>App\<close>, the router's location and the effect trace.
  A handler is a closure of the render that created it: a cell it reads by name
  (\<^verbatim>\<open>deletingAssetId\<close>, \<^verbatim>\<open>galleryAssets\<close>, \<^verbatim>\<open>location.pathname\<close>) has the value of that
  render, while a setter writes the live state and a functional update
  \<^verbatim>\<open>setX(prev => f(prev))\<close> is applied to the live state. The delete handlers, the two
  fetch functions and the session projection therefore take two states, the render's and
  the live one; they are the same state when the handler is called from the current
  render. The save handlers read nothing but \<^verbatim>\<open>currentUser\<close> by name and are run on one
  state.
\<close>

record app =
  currentUser :: "user option"
  isTourActive :: bool
  loading :: bool
  galleryAssets :: "generated_asset list"
  isGalleryLoading :: bool
  galleryError :: "string option"
  deletingAssetId :: "string option"
  collectionAssets :: "collection_asset list"
  isCollectionLoading :: bool
  collectionError :: "string option"
  deletingCollectionAssetId :: "string option"
  pathname :: string
  effects :: "effect list"

definition emit :: "effect \<Rightarrow> app \<Rightarrow> app" where
  "emit e s = s\<lparr>effects := effects s @ [e]\<rparr>"

definition navigate :: "string \<Rightarrow> bool \<Rightarrow> app \<Rightarrow> app" where
  "navigate p replace s = emit (Navigate p replace) (s\<lparr>pathname := p\<rparr>)"

text \<open>The two clock reads of a save: \<^verbatim>\<open>Date.now()\<close> and \<^verbatim>\<open>new Date().toISOString()\<close>.\<close>

record clock =
  now :: int
  iso :: string

text \<open>
  What a handler hands to its caller: it throws (an \<^verbatim>\<open>async\<close> handler's promise rejects),
  or it returns and may leave a background task pending, of which the model keeps the
  values the task's closure captured.
\<close>

datatype 'p outcome = Threw js_error | Returned 'p

section \<open>Optimistic save\<close>

definition handleAssetSaved :: "clock \<Rightarrow> string \<Rightarrow> app \<Rightarrow> string outcome \<times> app" where
  "handleAssetSaved clk generatedImage s =
     (case currentUser s of
        None \<Rightarrow>
          (Threw (Error ''You must be logged in to save an image.''),
           emit (ConsoleError ''Cannot save asset without a logged in user.'' None) s)
      | Some u \<Rightarrow>
          (let tempId = ''temp_'' @ js_number_string (now clk);
               tempAsset = \<lparr>asset.id' = tempId, user_id = user.id' u,
                            image_url = ''optimistic_update.png'',
                            display_url = generatedImage,
                            created_at = iso clk,
                            source_feature = ''virtual_photoshoot''\<rparr>;
               s1 = s\<lparr>galleryAssets := tempAsset # galleryAssets s\<rparr>;
               base64Data = at_index (split_on CHR '','' generatedImage) 1
           in (Returned tempId,
               emit (Remote (SaveAsset (user.id' u) base64Data ''virtual_photoshoot'')) s1)))"

text \<open>The rest of the background task of \<^verbatim>\<open>handleAssetSaved\<close>, run when \<^verbatim>\<open>saveAsset\<close> settles.\<close>

definition handleAssetSaved_settled ::
    "string \<Rightarrow> generated_asset settled \<Rightarrow> app \<Rightarrow> app" where
  "handleAssetSaved_settled tempId r s =
     (case r of
        Resolved realAsset \<Rightarrow>
          s\<lparr>galleryAssets :=
              map (\<lambda>asset. if asset.id' asset = tempId then realAsset else asset)
                (galleryAssets s)\<rparr>
      | Rejected err \<Rightarrow>
          (let s1 = emit (ConsoleError ''Failed to save asset in background:'' (Some err)) s
           in s1\<lparr>galleryAssets :=
                   filter (\<lambda>asset. asset.id' asset \<noteq> tempId) (galleryAssets s1)\<rparr>))"

definition handleSaveToCollection :: "clock \<Rightarrow> asset_data \<Rightarrow> app \<Rightarrow> string outcome \<times> app" where
  "handleSaveToCollection clk assetData s =
     (case currentUser s of
        None \<Rightarrow>
          (Threw (Error ''You must be logged in to save an asset.''),
           emit (ConsoleError ''Cannot save to collection without a logged in user.'' None) s)
      | Some u \<Rightarrow>
          (let tempId = ''temp_collection_'' @ js_number_string (now clk);
               tempAsset = \<lparr>asset.id' = tempId, user_id = user.id' u,
                            image_url = ''optimistic_update.png'',
                            display_url = imageUrl assetData,
                            created_at = iso clk,
                            collection_asset.asset_type = asset_data.asset_type assetData,
                            collection_asset.item_name = asset_data.item_name assetData,
                            collection_asset.item_category =
                              asset_data.item_category assetData\<rparr>;
               s1 = s\<lparr>collectionAssets := tempAsset # collectionAssets s\<rparr>;
               base64Data = at_index (split_on CHR '','' (imageUrl assetData)) 1
           in (Returned tempId,
               emit (Remote (SaveAssetToCollection (user.id' u) base64Data
                       (asset_data.asset_type assetData) (asset_data.item_name assetData)
                       (asset_data.item_category assetData))) s1)))"

definition handleSaveToCollection_settled ::
    "string \<Rightarrow> collection_asset settled \<Rightarrow> app \<Rightarrow> app" where
  "handleSaveToCollection_settled tempId r s =
     (case r of
        Resolved realAsset \<Rightarrow>
          s\<lparr>collectionAssets :=
              map (\<lambda>asset. if asset.id' asset = tempId then realAsset else asset)
                (collectionAssets s)\<rparr>
      | Rejected err \<Rightarrow>
          (let s1 = emit (ConsoleError ''Failed to save asset to collection in background:''
                            (Some err)) s
           in s1\<lparr>collectionAssets :=
                   filter (\<lambda>asset. asset.id' asset \<noteq> tempId) (collectionAssets s1)\<rparr>))"

section \<open>Optimistic delete\<close>

text \<open>
  Both delete handlers are \<^verbatim>\<open>async\<close>: the call runs up to the \<^verbatim>\<open>await\<close> of the remote
  delete and the rest runs when that settles. The first part returns \<^term>\<open>None\<close> when the
  guard returned early, and otherwise the snapshot \<^verbatim>\<open>originalAssets\<close> its closure keeps.
  The guard and the snapshot read the cells of the render; the filter is a functional
  update of the live list.
\<close>

definition handleDeleteAsset ::
    "generated_asset \<Rightarrow> app \<Rightarrow> app \<Rightarrow> generated_asset list option \<times> app" where
  "handleDeleteAsset assetToDelete render s =
     (if truthy (deletingAssetId render) then (None, s)
      else
        (let originalAssets = galleryAssets render;
             s1 = s\<lparr>galleryAssets :=
                     filter (\<lambda>asset. asset.id' asset \<noteq> asset.id' assetToDelete)
                       (galleryAssets s)\<rparr>;
             s2 = s1\<lparr>deletingAssetId := Some (asset.id' assetToDelete)\<rparr>
         in (Some originalAssets,
             emit (Remote (DeleteAsset (asset.id' assetToDelete) (image_url assetToDelete)))
               s2)))"


definition handleDeleteAssetFromCollection ::
    "collection_asset \<Rightarrow> app \<Rightarrow> app \<Rightarrow> collection_asset list option \<times> app" where
  "handleDeleteAssetFromCollection assetToDelete render s =
     (if truthy (deletingCollectionAssetId render) then (None, s)
      else
        (let originalAssets = collectionAssets render;
             s1 = s\<lparr>collectionAssets :=
                     filter (\<lambda>asset. asset.id' asset \<noteq> asset.id' assetToDelete)
                       (collectionAssets s)\<rparr>;
             s2 = s1\<lparr>deletingCollectionAssetId := Some (asset.id' assetToDelete)\<rparr>
         in (Some originalAssets,
             emit (Remote (DeleteAssetFromCollection (asset.id' assetToDelete)
                             (image_url assetToDelete)))
               s2)))"


section \<open>Session projection and logout\<close>

text \<open>
  The part of \<^verbatim>\<open>fetchGalleryAssets\<close> and \<^verbatim>\<open>fetchCollectionAssets\<close> that runs before the
  \<^verbatim>\<open>await\<close>, and the part that runs when the listing settles. Neither function lets an
  error escape to its caller. The length test reads the list of the render.
\<close>

definition fetchGalleryAssets :: "string \<Rightarrow> bool \<Rightarrow> app \<Rightarrow> app \<Rightarrow> app" where
  "fetchGalleryAssets userId forceRefresh render s =
     (if userId = [] \<or> (length (galleryAssets render) > 0 \<and> \<not> forceRefresh) then s
      else emit (Remote (GetAssetsForUser userId))
             (s\<lparr>isGalleryLoading := True, galleryError := None\<rparr>))"

definition fetchGalleryAssets_settled :: "generated_asset list settled \<Rightarrow> app \<Rightarrow> app" where
  "fetchGalleryAssets_settled r s =
     (case r of
        Resolved userAssets \<Rightarrow> s\<lparr>galleryAssets := userAssets, isGalleryLoading := False\<rparr>
      | Rejected err \<Rightarrow>
          (emit (ConsoleError ''Failed to fetch assets in App.tsx:'' (Some err)) s)
            \<lparr>galleryError := Some ''Could not load your gallery. Please try again later.'',
             isGalleryLoading := False\<rparr>)"

definition fetchCollectionAssets :: "string \<Rightarrow> bool \<Rightarrow> app \<Rightarrow> app \<Rightarrow> app" where
  "fetchCollectionAssets userId forceRefresh render s =
     (if userId = [] \<or> (length (collectionAssets render) > 0 \<and> \<not> forceRefresh) then s
      else emit (Remote (GetAssetsFromCollection userId))
             (s\<lparr>isCollectionLoading := True, collectionError := None\<rparr>))"

definition fetchCollectionAssets_settled :: "collection_asset list settled \<Rightarrow> app \<Rightarrow> app" where
  "fetchCollectionAssets_settled r s =
     (case r of
        Resolved userAssets \<Rightarrow>
          s\<lparr>collectionAssets := userAssets, isCollectionLoading := False\<rparr>
      | Rejected err \<Rightarrow>
          (emit (ConsoleError ''Failed to fetch collection assets in App.tsx:'' (Some err)) s)
            \<lparr>collectionError :=
               Some ''Could not load your asset collection. Please try again later.'',
             isCollectionLoading := False\<rparr>)"

text \<open>\<^verbatim>\<open>a || b\<close> for a nullable string \<open>a\<close> and a string \<open>b\<close>.\<close>

definition js_or :: "string option \<Rightarrow> string \<Rightarrow> string" where
  "js_or a b = (case a of None \<Rightarrow> b | Some v \<Rightarrow> if v \<noteq> [] then v else b)"

definition isPublicPath :: "paths \<Rightarrow> string \<Rightarrow> bool" where
  "isPublicPath P p = (p = LANDING P \<or> p = AUTH P)"

text \<open>
  What the two fallible calls inside the \<^verbatim>\<open>try\<close> block of \<^verbatim>\<open>processSession\<close> do: the
  awaited profile query resolves to \<^verbatim>\<open>{data, error}\<close> or rejects, and
  \<^verbatim>\<open>localStorage.getItem\<close> returns the stored marker or throws. React's setters, the router
  and the console are taken not to throw.
\<close>

record session_env =
  profile_query :: "profile_response settled"
  tour_completed :: "string option settled"

text \<open>
  The \<^verbatim>\<open>try\<close> block: the error it throws, if any, and the state reached up to there.
  \<^verbatim>\<open>processSession\<close> is a closure of the render in which the effect hook ran:
  \<^verbatim>\<open>location.pathname\<close> and the two fetch functions it calls are that render's, also after
  a \<^verbatim>\<open>navigate\<close>. The only \<^verbatim>\<open>await\<close> is the profile query, before any state is written,
  so the rest of the block is one step on the live state at that moment. The effect hook
  that calls \<^verbatim>\<open>processSession\<close> (the initial \<^verbatim>\<open>getSession\<close> and the subscription) is
  outside the model: a session event is a call of \<^verbatim>\<open>processSession\<close>.
\<close>

definition processSession_try ::
    "paths \<Rightarrow> session_env \<Rightarrow> app \<Rightarrow> session option \<Rightarrow> app \<Rightarrow> js_error option \<times> app" where
  "processSession_try P env render sess s =
     (case sess of
        Some se \<Rightarrow>
          (let su = session.user se;
               s0 = emit (Remote (ProfileQuery (supabase_user.id' su))) s
           in case profile_query env of
                Rejected e \<Rightarrow> (Some e, s0)
              | Resolved resp \<Rightarrow>
                  (let s1 = (case error resp of
                               Some profileError \<Rightarrow>
                                 emit (ConsoleWarn
                                         ''Could not fetch user profile on auth change:''
                                         (message profileError)) s0
                             | None \<Rightarrow> s0);
                       userEmail = (case supabase_user.email su of Some e \<Rightarrow> e | None \<Rightarrow> []);
                       usr = \<lparr>user.id' = supabase_user.id' su,
                              email = userEmail,
                              username =
                                js_or (case data resp of None \<Rightarrow> None
                                       | Some pr \<Rightarrow> profile.username pr)
                                  (js_or (Some userEmail) ''ghost_user''),
                              avatar = (case data resp of None \<Rightarrow> None
                                        | Some pr \<Rightarrow> avatar_url pr)\<rparr>;
                       s2 = s1\<lparr>currentUser := Some usr\<rparr>;
                       s3 = fetchGalleryAssets (supabase_user.id' su) False render s2;
                       s4 = fetchCollectionAssets (supabase_user.id' su) False render s3;
                       s5 = (if pathname render = LANDING P \<or> pathname render = AUTH P
                             then navigate (HOME P) True s4 else s4)
                   in case tour_completed env of
                        Rejected e \<Rightarrow> (Some e, s5)
                      | Resolved tourCompleted \<Rightarrow>
                          (None, if \<not> truthy tourCompleted then emit (SetTimeout 500) s5
                                 else s5)))
      | None \<Rightarrow>
          (let s1 = s\<lparr>currentUser := None, galleryAssets := [], collectionAssets := []\<rparr>
           in (None, if \<not> isPublicPath P (pathname render) then navigate (LANDING P) True s1
                     else s1)))"

text \<open>The \<^verbatim>\<open>catch\<close> block, given the path the closure captured and the error caught.\<close>

definition processSession_catch :: "paths \<Rightarrow> string \<Rightarrow> js_error \<Rightarrow> app \<Rightarrow> app" where
  "processSession_catch P path e s =
     (let s1 = emit (ConsoleError ''Error in session processing:'' (Some e)) s;
          s2 = s1\<lparr>currentUser := None, galleryAssets := [], collectionAssets := []\<rparr>
      in if \<not> isPublicPath P path then navigate (LANDING P) True s2 else s2)"

definition processSession ::
    "paths \<Rightarrow> session_env \<Rightarrow> app \<Rightarrow> session option \<Rightarrow> app \<Rightarrow> app" where
  "processSession P env render sess s =
     (case processSession_try P env render sess s of
        (None, s') \<Rightarrow> s'
      | (Some e, s') \<Rightarrow> processSession_catch P (pathname render) e s')"

text \<open>
  The route table the component returns once \<^verbatim>\<open>loading\<close> is false, as far as it moves the
  location. With a user, \<^verbatim>\<open>/home\<close> is redirected to the home route unless the home route
  is \<^verbatim>\<open>/home\<close> itself; the other paths render a page. Without a user, the auth and landing
  routes render their pages and every other path renders
  \<^verbatim>\<open><Navigate to={PATHS.LANDING} replace />\<close>. The named routes are taken to be plain
  paths, matched as written.
\<close>

definition render_routes :: "paths \<Rightarrow> app \<Rightarrow> app" where
  "render_routes P s =
     (if loading s then s
      else (case currentUser s of
              Some u \<Rightarrow>
                (if pathname s = ''/home'' \<and> pathname s \<noteq> HOME P
                 then navigate (HOME P) True s else s)
            | None \<Rightarrow>
                (if pathname s = AUTH P \<or> pathname s = LANDING P then s
                 else navigate (LANDING P) True s)))"

text \<open>
  Spec side of the display name, in the words of the specification: the profile's username
  when a profile record with a non-empty username exists, otherwise the user's email when
  it is non-empty, otherwise the fixed default.
\<close>

definition spec_display_name :: "profile option \<Rightarrow> string option \<Rightarrow> string" where
  "spec_display_name pr em =
     (if pr \<noteq> None \<and> truthy (profile.username (the pr)) then the (profile.username (the pr))
      else if truthy em then the em
      else ''ghost_user'')"

text \<open>
  \<^verbatim>\<open>handleLogout\<close> is \<^verbatim>\<open>async\<close> and awaits \<^verbatim>\<open>signOut\<close> outside any \<^verbatim>\<open>try\<close>: the call
  resolves to \<^verbatim>\<open>{error}\<close>, where \<^verbatim>\<open>error\<close> is \<^verbatim>\<open>null\<close> or an error object, or it rejects,
  and then the handler's own promise rejects at the \<^verbatim>\<open>await\<close>.
\<close>

definition handleLogout ::
    "paths \<Rightarrow> js_error option settled \<Rightarrow> app \<Rightarrow> unit outcome \<times> app" where
  "handleLogout P signOut s =
     (let s0 = emit (Remote SignOut) s
      in case signOut of
           Rejected e \<Rightarrow> (Threw e, s0)
         | Resolved signOutError \<Rightarrow>
             (let s1 = (case signOutError of
                          Some e \<Rightarrow> emit (ConsoleError ''Error logging out:'' (Some e)) s0
                        | None \<Rightarrow> s0);
                  s2 = s1\<lparr>currentUser := None, galleryAssets := [],
                          collectionAssets := []\<rparr>
              in (Returned (), navigate (LANDING P) False s2)))"

section \<open>Server-side rendering handler\<close>

text \<open>
  \<^verbatim>\<open>template.replace(pattern, replacement)\<close> with two strings: only the first occurrence
  of the pattern is replaced, and in the replacement the sequences \<^verbatim>\<open>$$\<close>, \<^verbatim>\<open>$&\<close>,
  dollar-backquote and dollar-quote stand for a dollar sign, the matched text, the text
  before the match and the text after it. With a string pattern there are no capture
  groups, so a dollar sign before anything else is kept as it is.
\<close>

fun split_first :: "string \<Rightarrow> string \<Rightarrow> (string \<times> string) option" where
  "split_first pat [] = (if pat = [] then Some ([], []) else None)"
| "split_first pat (c # cs) =
     (if prefix pat (c # cs) then Some ([], drop (length pat) (c # cs))
      else (case split_first pat cs of
              None \<Rightarrow> None
            | Some (before, after) \<Rightarrow> Some (c # before, after)))"

fun get_substitution :: "string \<Rightarrow> string \<Rightarrow> string \<Rightarrow> string \<Rightarrow> string" where
  "get_substitution matched before after [] = []"
| "get_substitution matched before after [c] = [c]"
| "get_substitution matched before after (c # d # r) =
     (if c = CHR ''$'' \<and> d = CHR ''$'' then CHR ''$'' # get_substitution matched before after r
      else if c = CHR ''$'' \<and> d = CHR ''&'' then matched @ get_substitution matched before after r
      else if c = CHR ''$'' \<and> d = CHR 0x60 then before @ get_substitution matched before after r
      else if c = CHR ''$'' \<and> d = CHR 0x27 then after @ get_substitution matched before after r
      else c # get_substitution matched before after (d # r))"

definition js_replace :: "string \<Rightarrow> string \<Rightarrow> string \<Rightarrow> string" where
  "js_replace str pat replacement =
     (case split_first pat str of
        None \<Rightarrow> str
      | Some (before, after) \<Rightarrow>
          before @ get_substitution pat before after replacement @ after)"

record response =
  status :: nat
  content_type :: "string option"
  body :: string

text \<open>
  What the handler's three fallible steps do: reading \<^verbatim>\<open>index.html\<close>, importing the
  server entry (which gives the render function) and rendering the requested URL.
\<close>

record ssr_env =
  read_template :: "string attempt"
  import_render :: "(string \<Rightarrow> string attempt) attempt"

text \<open>
  \<^verbatim>\<open>(e as Error).message\<close>: the cast checks nothing, a value that is not an error object
  gives \<^verbatim>\<open>undefined\<close>, and \<^verbatim>\<open>res.end(undefined)\<close> sends an empty body.
\<close>

definition thrown_message :: "thrown \<Rightarrow> string option" where
  "thrown_message t = (case t of Thrown_error e \<Rightarrow> Some (message e) | Thrown_value \<Rightarrow> None)"

definition ssr_failure :: "thrown \<Rightarrow> response \<times> effect list" where
  "ssr_failure t =
     (\<lparr>status = 500, content_type = None,
       body = (case thrown_message t of Some m \<Rightarrow> m | None \<Rightarrow> [])\<rparr>,
      [ConsoleErrorThrown ''SSR Error:'' t])"

definition ssr_handler :: "ssr_env \<Rightarrow> string \<Rightarrow> response \<times> effect list" where
  "ssr_handler env originalUrl =
     (case read_template env of
        Throws t \<Rightarrow> ssr_failure t
      | Succeeds template \<Rightarrow>
          (case import_render env of
             Throws t \<Rightarrow> ssr_failure t
           | Succeeds render \<Rightarrow>
               (case render originalUrl of
                  Throws t \<Rightarrow> ssr_failure t
                | Succeeds appHtml \<Rightarrow>
                    (let html = js_replace template ''<!--ssr-outlet-->'' appHtml
                     in (\<lparr>status = 200, content_type = Some ''text/html'', body = html\<rparr>,
                         [])))))"

section \<open>Example values\<close>

definition demo_user :: user where
  "demo_user = \<lparr>user.id' = ''u1'', email = ''ann@example.com'', username = ''ann'', avatar = None\<rparr>"

definition demo_state :: app where
  "demo_state =
     \<lparr>currentUser = Some demo_user, isTourActive = False, loading = False,
      galleryAssets = [], isGalleryLoading = False, galleryError = None,
      deletingAssetId = None,
      collectionAssets = [], isCollectionLoading = False, collectionError = None,
      deletingCollectionAssetId = None,
      pathname = ''/gallery'', effects = []\<rparr>"

definition demo_clock :: clock where
  "demo_clock = \<lparr>now = 1700000000123, iso = ''2023-11-14T22:13:20.123Z''\<rparr>"

definition demo_logged_out :: app where
  "demo_logged_out = demo_state\<lparr>currentUser := None\<rparr>"

definition demo_asset :: generated_asset where
  "demo_asset =
     \<lparr>asset.id' = ''a1'', user_id = ''u1'', image_url = ''u1/a1.png'',
      display_url = ''https://cdn.example/u1/a1.png'',
      created_at = ''2023-11-01T10:00:00.000Z'', source_feature = ''virtual_photoshoot''\<rparr>"

definition demo_asset2 :: generated_asset where
  "demo_asset2 =
     \<lparr>asset.id' = ''a2'', user_id = ''u1'', image_url = ''u1/a2.png'',
      display_url = ''https://cdn.example/u1/a2.png'',
      created_at = ''2023-11-02T10:00:00.000Z'', source_feature = ''virtual_photoshoot''\<rparr>"

definition demo_item :: collection_asset where
  "demo_item =
     \<lparr>asset.id' = ''c1'', user_id = ''u1'', image_url = ''u1/c1.png'',
      display_url = ''https://cdn.example/u1/c1.png'',
      created_at = ''2023-11-03T10:00:00.000Z'',
      collection_asset.asset_type = individual, collection_asset.item_name = ''Scarf'',
      collection_asset.item_category = ''accessories''\<rparr>"

definition demo_data :: asset_data where
  "demo_data =
     \<lparr>imageUrl = ''data:image/png;base64,QUJD'', asset_type = composed,
      item_name = ''Coat'', item_category = ''outerwear''\<rparr>"

definition demo_gallery :: app where
  "demo_gallery =
     demo_state\<lparr>galleryAssets := [demo_asset2, demo_asset], collectionAssets := [demo_item]\<rparr>"

definition demo_deleting :: app where
  "demo_deleting = snd (handleDeleteAsset demo_asset demo_gallery demo_gallery)"

definition demo_deleting_item :: app where
  "demo_deleting_item =
     snd (handleDeleteAssetFromCollection demo_item demo_gallery demo_gallery)"

definition demo_real_asset :: generated_asset where
  "demo_real_asset =
     \<lparr>asset.id' = ''a9'', user_id = ''u1'', image_url = ''u1/a9.png'',
      display_url = ''https://cdn.example/u1/a9.png'',
      created_at = ''2023-11-14T22:13:21.000Z'', source_feature = ''virtual_photoshoot''\<rparr>"

text \<open>Two saves whose \<^verbatim>\<open>Date.now()\<close> reads give the same millisecond.\<close>

definition first_save_state :: app where
  "first_save_state = snd (handleAssetSaved demo_clock ''data:image/png;base64,QQ=='' demo_state)"

definition second_save_state :: app where
  "second_save_state =
     snd (handleAssetSaved demo_clock ''data:image/png;base64,Qg=='' first_save_state)"

text \<open>Routes chosen for the examples; the component's own table is not among the sources.\<close>

definition demo_paths :: paths where
  "demo_paths = \<lparr>LANDING = ''/'', AUTH = ''/auth'', HOME = ''/dashboard''\<rparr>"

definition demo_session :: session where
  "demo_session = \<lparr>user = \<lparr>supabase_user.id' = ''u1'', email = Some ''ann@example.com''\<rparr>\<rparr>"

definition anonymous_session :: session where
  "anonymous_session = \<lparr>user = \<lparr>supabase_user.id' = ''u2'', email = None\<rparr>\<rparr>"

definition no_profile_env :: session_env where
  "no_profile_env =
     \<lparr>profile_query = Resolved \<lparr>data = None, error = None\<rparr>,
      tour_completed = Resolved (Some ''true'')\<rparr>"

definition profile_env :: session_env where
  "profile_env =
     \<lparr>profile_query =
        Resolved \<lparr>data = Some \<lparr>profile.username = Some ''ann'', avatar_url = None\<rparr>,
                  error = None\<rparr>,
      tour_completed = Resolved None\<rparr>"

definition storage_blocked_env :: session_env where
  "storage_blocked_env =
     \<lparr>profile_query = Resolved \<lparr>data = None, error = None\<rparr>,
      tour_completed = Rejected (Error ''The operation is insecure.'')\<rparr>"

definition auth_page_state :: app where
  "auth_page_state = demo_logged_out\<lparr>pathname := ''/auth''\<rparr>"

text \<open>A page whose rendered HTML holds the text \<^verbatim>\<open>R$&D\<close>, escaped as React escapes it.\<close>

definition dollar_env :: ssr_env where
  "dollar_env =
     \<lparr>read_template = Succeeds ''<main><!--ssr-outlet--></main>'',
      import_render = Succeeds (\<lambda>url. Succeeds ''<p>R$&amp;D</p>'')\<rparr>"

section \<open>Properties of the optimistic save\<close>

lemma string_of_nat_demo: "string_of_nat 1700000000123 = ''1700000000123''"
  by (simp add: string_of_nat.simps digit_char_def)

lemma js_number_string_demo: "js_number_string 1700000000123 = ''1700000000123''"
  by (simp add: js_number_string_def string_of_nat_demo)

text \<open>
  C3. A save with an authenticated owner returns normally and, in the state it returns,
  the list begins with a pending asset: its identifier is the prefix \<^verbatim>\<open>temp_\<close> (gallery) or
  \<^verbatim>\<open>temp_collection_\<close> (collection) followed by the digits of \<^verbatim>\<open>Date.now()\<close>, its display
  content is the caller's content unchanged, its stored location is the sentinel
  \<^verbatim>\<open>optimistic_update.png\<close>, and the previous entries follow it in their order. The remote
  write is only issued: its outcome is still open when the call returns.
\<close>

theorem save_prepends_placeholder:
  assumes "currentUser s = Some u"
  shows "fst (handleAssetSaved clk img s) = Returned (''temp_'' @ js_number_string (now clk))
       \<and> galleryAssets (snd (handleAssetSaved clk img s))
           = hd (galleryAssets (snd (handleAssetSaved clk img s))) # galleryAssets s
       \<and> asset.id' (hd (galleryAssets (snd (handleAssetSaved clk img s))))
           = ''temp_'' @ js_number_string (now clk)
       \<and> prefix ''temp_'' (asset.id' (hd (galleryAssets (snd (handleAssetSaved clk img s)))))
       \<and> display_url (hd (galleryAssets (snd (handleAssetSaved clk img s)))) = img
       \<and> image_url (hd (galleryAssets (snd (handleAssetSaved clk img s))))
           = ''optimistic_update.png''
       \<and> effects (snd (handleAssetSaved clk img s))
           = effects s @ [Remote (SaveAsset (user.id' u)
                            (at_index (split_on CHR '','' img) 1) ''virtual_photoshoot'')]
       \<and> fst (handleSaveToCollection clk d s)
           = Returned (''temp_collection_'' @ js_number_string (now clk))
       \<and> collectionAssets (snd (handleSaveToCollection clk d s))
           = hd (collectionAssets (snd (handleSaveToCollection clk d s))) # collectionAssets s
       \<and> asset.id' (hd (collectionAssets (snd (handleSaveToCollection clk d s))))
           = ''temp_collection_'' @ js_number_string (now clk)
       \<and> prefix ''temp_'' (asset.id' (hd (collectionAssets (snd (handleSaveToCollection clk d s)))))
       \<and> display_url (hd (collectionAssets (snd (handleSaveToCollection clk d s)))) = imageUrl d
       \<and> image_url (hd (collectionAssets (snd (handleSaveToCollection clk d s))))
           = ''optimistic_update.png''
       \<and> effects (snd (handleSaveToCollection clk d s))
           = effects s @ [Remote (SaveAssetToCollection (user.id' u)
                            (at_index (split_on CHR '','' (imageUrl d)) 1)
                            (asset_data.asset_type d) (asset_data.item_name d)
                            (asset_data.item_category d))]"
  using assms
  by (simp add: handleAssetSaved_def handleSaveToCollection_def emit_def Let_def)

theorem save_prepends_placeholder_witness:
  "currentUser demo_gallery = Some demo_user
   \<and> fst (handleAssetSaved demo_clock ''data:image/png;base64,QUJD'' demo_gallery)
       = Returned ''temp_1700000000123''
   \<and> display_url (hd (galleryAssets (snd (handleAssetSaved demo_clock
         ''data:image/png;base64,QUJD'' demo_gallery)))) = ''data:image/png;base64,QUJD''
   \<and> tl (galleryAssets (snd (handleAssetSaved demo_clock
         ''data:image/png;base64,QUJD'' demo_gallery))) = [demo_asset2, demo_asset]
   \<and> asset.id' (hd (collectionAssets (snd (handleSaveToCollection demo_clock demo_data
         demo_gallery)))) = ''temp_collection_1700000000123''"
proof -
  have u: "currentUser demo_gallery = Some demo_user"
    by (simp add: demo_gallery_def demo_state_def)
  have g: "galleryAssets demo_gallery = [demo_asset2, demo_asset]"
    by (simp add: demo_gallery_def)
  have n: "js_number_string (now demo_clock) = ''1700000000123''"
    by (simp add: demo_clock_def js_number_string_demo)
  from save_prepends_placeholder [OF u, of demo_clock "''data:image/png;base64,QUJD''" demo_data]
  show ?thesis
    using u g n by (metis append_Cons append_Nil list.sel(3))
qed

text \<open>
  C6. A save with no authenticated owner (\<^verbatim>\<open>currentUser\<close> is \<^verbatim>\<open>null\<close>) throws from the
  synchronous call itself: the caller receives the thrown \<^verbatim>\<open>Error\<close>, no background task is
  started and no remote write is issued. The state is the one before the call but for the
  console line; in particular both lists are unchanged.
\<close>

theorem save_without_user_throws:
  assumes "currentUser s = None"
  shows "handleAssetSaved clk img s
           = (Threw (Error ''You must be logged in to save an image.''),
              s\<lparr>effects := effects s
                   @ [ConsoleError ''Cannot save asset without a logged in user.'' None]\<rparr>)
       \<and> handleSaveToCollection clk d s
           = (Threw (Error ''You must be logged in to save an asset.''),
              s\<lparr>effects := effects s
                   @ [ConsoleError ''Cannot save to collection without a logged in user.''
                        None]\<rparr>)
       \<and> galleryAssets (snd (handleAssetSaved clk img s)) = galleryAssets s
       \<and> collectionAssets (snd (handleSaveToCollection clk d s)) = collectionAssets s"
  using assms
  by (simp add: handleAssetSaved_def handleSaveToCollection_def emit_def)

theorem save_without_user_throws_witness:
  "currentUser demo_logged_out = None
   \<and> fst (handleAssetSaved demo_clock ''data:image/png;base64,QUJD'' demo_logged_out)
       = Threw (Error ''You must be logged in to save an image.'')
   \<and> galleryAssets (snd (handleAssetSaved demo_clock ''data:image/png;base64,QUJD''
         demo_logged_out)) = []
   \<and> fst (handleSaveToCollection demo_clock demo_data demo_logged_out)
       = Threw (Error ''You must be logged in to save an asset.'')"
  using save_without_user_throws [of demo_logged_out demo_clock
      "''data:image/png;base64,QUJD''" demo_data]
  by (simp add: demo_logged_out_def demo_state_def)

section \<open>Settling a save\<close>

lemma filter_other_ids:
  "x \<notin> f ` set xs \<Longrightarrow> filter (\<lambda>a. f a \<noteq> x) xs = xs"
  by (induction xs) auto

lemma replace_other_ids:
  "x \<notin> f ` set xs \<Longrightarrow> map (\<lambda>a. if f a = x then r else a) xs = xs"
  by (induction xs) auto

lemma first_save_result:
  "handleAssetSaved demo_clock ''data:image/png;base64,QQ=='' demo_state
     = (Returned ''temp_1700000000123'', first_save_state)"
  by (simp add: first_save_state_def handleAssetSaved_def demo_state_def demo_clock_def
      js_number_string_demo Let_def)

lemma first_save_gallery:
  "galleryAssets first_save_state
     = [\<lparr>asset.id' = ''temp_1700000000123'', user_id = ''u1'',
         image_url = ''optimistic_update.png'',
         display_url = ''data:image/png;base64,QQ=='',
         created_at = ''2023-11-14T22:13:20.123Z'',
         source_feature = ''virtual_photoshoot''\<rparr>]"
  by (simp add: first_save_state_def handleAssetSaved_def demo_state_def demo_clock_def
      demo_user_def js_number_string_demo Let_def emit_def)

lemma first_save_user: "currentUser first_save_state = Some demo_user"
  by (simp add: first_save_state_def handleAssetSaved_def demo_state_def Let_def emit_def)

lemma second_save_result:
  "handleAssetSaved demo_clock ''data:image/png;base64,Qg=='' first_save_state
     = (Returned ''temp_1700000000123'', second_save_state)"
  by (simp add: second_save_state_def handleAssetSaved_def first_save_user demo_clock_def
      js_number_string_demo Let_def)

lemma second_save_gallery:
  "galleryAssets second_save_state
     = [\<lparr>asset.id' = ''temp_1700000000123'', user_id = ''u1'',
         image_url = ''optimistic_update.png'',
         display_url = ''data:image/png;base64,Qg=='',
         created_at = ''2023-11-14T22:13:20.123Z'',
         source_feature = ''virtual_photoshoot''\<rparr>,
        \<lparr>asset.id' = ''temp_1700000000123'', user_id = ''u1'',
         image_url = ''optimistic_update.png'',
         display_url = ''data:image/png;base64,QQ=='',
         created_at = ''2023-11-14T22:13:20.123Z'',
         source_feature = ''virtual_photoshoot''\<rparr>]"
  by (simp add: second_save_state_def handleAssetSaved_def first_save_user first_save_gallery
      demo_clock_def demo_user_def js_number_string_demo Let_def emit_def)

lemma save_failure_fresh_id:
  assumes "currentUser s = Some u"
    and "''temp_'' @ js_number_string (now clk) \<notin> asset.id' ` set (galleryAssets s)"
  shows "galleryAssets (handleAssetSaved_settled (''temp_'' @ js_number_string (now clk))
           (Rejected e) (snd (handleAssetSaved clk img s))) = galleryAssets s"
  using assms
  by (simp add: handleAssetSaved_def handleAssetSaved_settled_def emit_def Let_def
      filter_other_ids)

lemma save_success_unique_entry:
  assumes "galleryAssets s = before @ p # after" and "asset.id' p = tempId"
    and "tempId \<notin> asset.id' ` set before" and "tempId \<notin> asset.id' ` set after"
  shows "galleryAssets (handleAssetSaved_settled tempId (Resolved realAsset) s)
           = before @ realAsset # after"
  using assms by (simp add: handleAssetSaved_settled_def replace_other_ids)

text \<open>
  C1 at a failing input. The rollback of a save keeps exactly the entries whose identifier
  differs from that save's placeholder identifier, on whatever state it runs, and the
  error goes to the console only. The identifier is the prefix and the millisecond read
  from the clock, so two saves in one millisecond get the same one: the second save starts
  from a list of length one, and when its remote write rejects, the rollback removes the
  first save's placeholder as well and leaves the list empty, not at its pre-save length.
\<close>

theorem save_rollback_same_millisecond:
  "galleryAssets (handleAssetSaved_settled tempId (Rejected e) s)
     = filter (\<lambda>a. asset.id' a \<noteq> tempId) (galleryAssets s)
   \<and> effects (handleAssetSaved_settled tempId (Rejected e) s)
       = effects s @ [ConsoleError ''Failed to save asset in background:'' (Some e)]
   \<and> galleryError (handleAssetSaved_settled tempId (Rejected e) s) = galleryError s
   \<and> collectionAssets (handleAssetSaved_settled tempId (Rejected e) s) = collectionAssets s
   \<and> collectionAssets (handleSaveToCollection_settled tempId (Rejected e) s)
       = filter (\<lambda>a. asset.id' a \<noteq> tempId) (collectionAssets s)
   \<and> effects (handleSaveToCollection_settled tempId (Rejected e) s)
       = effects s
         @ [ConsoleError ''Failed to save asset to collection in background:'' (Some e)]
   \<and> collectionError (handleSaveToCollection_settled tempId (Rejected e) s)
       = collectionError s
   \<and> galleryAssets (handleSaveToCollection_settled tempId (Rejected e) s) = galleryAssets s
   \<and> fst (handleAssetSaved demo_clock ''data:image/png;base64,QQ=='' demo_state)
       = Returned ''temp_1700000000123''
   \<and> length (galleryAssets first_save_state) = 1
   \<and> fst (handleAssetSaved demo_clock ''data:image/png;base64,Qg=='' first_save_state)
       = Returned ''temp_1700000000123''
   \<and> length (galleryAssets second_save_state) = 2
   \<and> galleryAssets (handleAssetSaved_settled ''temp_1700000000123''
         (Rejected (Error ''Failed to fetch'')) second_save_state) = []"
  by (simp add: first_save_result second_save_result first_save_gallery second_save_gallery
      handleAssetSaved_settled_def handleSaveToCollection_settled_def emit_def Let_def)

text \<open>
  C2 at a failing input. When the remote write of a save resolves, every entry whose
  identifier is that save's placeholder identifier is replaced at its position by the
  returned asset, on whatever state this runs; nothing else changes. After two saves in
  one millisecond the list holds two placeholders with one identifier and different
  display content: when the first save's write resolves, the second save's placeholder is
  overwritten by the first save's asset too, so an entry other than the save's own
  placeholder has changed and the list shows that asset twice.
\<close>

theorem save_success_same_millisecond:
  "galleryAssets (handleAssetSaved_settled tempId (Resolved realAsset) s)
     = map (\<lambda>a. if asset.id' a = tempId then realAsset else a) (galleryAssets s)
   \<and> effects (handleAssetSaved_settled tempId (Resolved realAsset) s) = effects s
   \<and> collectionAssets (handleAssetSaved_settled tempId (Resolved realAsset) s)
       = collectionAssets s
   \<and> collectionAssets (handleSaveToCollection_settled tempId (Resolved realItem) s)
       = map (\<lambda>a. if asset.id' a = tempId then realItem else a) (collectionAssets s)
   \<and> effects (handleSaveToCollection_settled tempId (Resolved realItem) s) = effects s
   \<and> galleryAssets (handleSaveToCollection_settled tempId (Resolved realItem) s)
       = galleryAssets s
   \<and> fst (handleAssetSaved demo_clock ''data:image/png;base64,QQ=='' demo_state)
       = Returned ''temp_1700000000123''
   \<and> fst (handleAssetSaved demo_clock ''data:image/png;base64,Qg=='' first_save_state)
       = Returned ''temp_1700000000123''
   \<and> map display_url (galleryAssets second_save_state)
       = [''data:image/png;base64,Qg=='', ''data:image/png;base64,QQ=='']
   \<and> galleryAssets (handleAssetSaved_settled ''temp_1700000000123''
         (Resolved demo_real_asset) second_save_state) = [demo_real_asset, demo_real_asset]"
  by (simp add: first_save_result second_save_result second_save_gallery
      handleAssetSaved_settled_def handleSaveToCollection_settled_def)

section \<open>Properties of the optimistic delete\<close>


lemma demo_delete_started:
  "handleDeleteAsset demo_asset demo_gallery demo_gallery
     = (Some [demo_asset2, demo_asset], demo_deleting)"
  by (simp add: demo_deleting_def handleDeleteAsset_def demo_gallery_def demo_state_def
      truthy_def Let_def)


lemma demo_deleting_state:
  "galleryAssets demo_deleting = [demo_asset2]"
  "deletingAssetId demo_deleting = Some ''a1''"
  "effects demo_deleting = [Remote (DeleteAsset ''a1'' ''u1/a1.png'')]"
  by (simp_all add: demo_deleting_def handleDeleteAsset_def demo_gallery_def demo_state_def
      truthy_def Let_def emit_def demo_asset_def demo_asset2_def)

lemma demo_deleting_item_state:
  "collectionAssets demo_deleting_item = []"
  "deletingCollectionAssetId demo_deleting_item = Some ''c1''"
  "effects demo_deleting_item = [Remote (DeleteAssetFromCollection ''c1'' ''u1/c1.png'')]"
  by (simp_all add: demo_deleting_item_def handleDeleteAssetFromCollection_def
      demo_gallery_def demo_state_def truthy_def Let_def emit_def demo_item_def)


lemma delete_guard_blocks_in_marked_render:
  "truthy (deletingAssetId render) \<Longrightarrow> handleDeleteAsset b render s = (None, s)"
  "truthy (deletingCollectionAssetId render) \<Longrightarrow>
     handleDeleteAssetFromCollection c render s = (None, s)"
  by (simp_all add: handleDeleteAsset_def handleDeleteAssetFromCollection_def)

text \<open>
  C5 at a failing input. The guard \<^verbatim>\<open>if (deletingAssetId) return\<close> reads the marker of the
  render that created the handler. A handler of a render that shows the marker set starts
  no work. But the handler called twice before the component has rendered again is the
  same closure both times, and its marker is still \<^verbatim>\<open>null\<close>: the first call sets the live
  marker and issues the remote delete, the second call passes the guard all the same and
  issues the remote delete a second time, for each of the two lists.
\<close>

theorem delete_twice_from_one_render:
  "handleDeleteAsset demo_asset demo_gallery demo_gallery
     = (Some [demo_asset2, demo_asset], demo_deleting)
   \<and> deletingAssetId demo_deleting = Some ''a1''
   \<and> effects demo_deleting = [Remote (DeleteAsset ''a1'' ''u1/a1.png'')]
   \<and> fst (handleDeleteAsset demo_asset demo_gallery demo_deleting)
       = Some [demo_asset2, demo_asset]
   \<and> effects (snd (handleDeleteAsset demo_asset demo_gallery demo_deleting))
       = [Remote (DeleteAsset ''a1'' ''u1/a1.png''), Remote (DeleteAsset ''a1'' ''u1/a1.png'')]
   \<and> handleDeleteAsset demo_asset demo_deleting demo_deleting = (None, demo_deleting)
   \<and> deletingCollectionAssetId demo_deleting_item = Some ''c1''
   \<and> fst (handleDeleteAssetFromCollection demo_item demo_gallery demo_deleting_item)
       = Some [demo_item]
   \<and> effects (snd (handleDeleteAssetFromCollection demo_item demo_gallery demo_deleting_item))
       = [Remote (DeleteAssetFromCollection ''c1'' ''u1/c1.png''),
          Remote (DeleteAssetFromCollection ''c1'' ''u1/c1.png'')]
   \<and> handleDeleteAssetFromCollection demo_item demo_deleting_item demo_deleting_item
       = (None, demo_deleting_item)"
proof -
  have idle: "\<not> truthy (deletingAssetId demo_gallery)"
    "\<not> truthy (deletingCollectionAssetId demo_gallery)"
    by (simp_all add: demo_gallery_def demo_state_def truthy_def)
  have lists: "galleryAssets demo_gallery = [demo_asset2, demo_asset]"
    "collectionAssets demo_gallery = [demo_item]"
    by (simp_all add: demo_gallery_def)
  have ids: "asset.id' demo_asset = ''a1''" "image_url demo_asset = ''u1/a1.png''"
    "asset.id' demo_item = ''c1''" "image_url demo_item = ''u1/c1.png''"
    by (simp_all add: demo_asset_def demo_item_def)
  have second: "fst (handleDeleteAsset demo_asset demo_gallery demo_deleting)
                  = Some [demo_asset2, demo_asset]"
    "effects (snd (handleDeleteAsset demo_asset demo_gallery demo_deleting))
       = [Remote (DeleteAsset ''a1'' ''u1/a1.png''), Remote (DeleteAsset ''a1'' ''u1/a1.png'')]"
    using idle lists ids demo_deleting_state
    by (simp_all add: handleDeleteAsset_def Let_def emit_def)
  have csecond: "fst (handleDeleteAssetFromCollection demo_item demo_gallery demo_deleting_item)
                   = Some [demo_item]"
    "effects (snd (handleDeleteAssetFromCollection demo_item demo_gallery demo_deleting_item))
       = [Remote (DeleteAssetFromCollection ''c1'' ''u1/c1.png''),
          Remote (DeleteAssetFromCollection ''c1'' ''u1/c1.png'')]"
    using idle lists ids demo_deleting_item_state
    by (simp_all add: handleDeleteAssetFromCollection_def Let_def emit_def)
  have blocked: "handleDeleteAsset demo_asset demo_deleting demo_deleting = (None, demo_deleting)"
    "handleDeleteAssetFromCollection demo_item demo_deleting_item demo_deleting_item
       = (None, demo_deleting_item)"
    using demo_deleting_state(2) demo_deleting_item_state(2)
    by (simp_all add: delete_guard_blocks_in_marked_render truthy_def)
  from demo_delete_started demo_deleting_state demo_deleting_item_state second csecond blocked
  show ?thesis by simp
qed

section \<open>Session projection\<close>

lemma try_query_rejected:
  "profile_query env = Rejected e \<Longrightarrow>
     processSession_try P env r (Some se) s
       = (Some e, emit (Remote (ProfileQuery (supabase_user.id' (session.user se)))) s)"
  by (simp add: processSession_try_def Let_def)

lemma try_storage_thrown:
  "profile_query env = Resolved resp \<Longrightarrow> tour_completed env = Rejected e \<Longrightarrow>
     fst (processSession_try P env r (Some se) s) = Some e
     \<and> loading (snd (processSession_try P env r (Some se) s)) = loading s
     \<and> pathname (snd (processSession_try P env r (Some se) s))
         = (if isPublicPath P (pathname r) then HOME P else pathname s)"
  by (simp add: processSession_try_def Let_def emit_def navigate_def fetchGalleryAssets_def
      fetchCollectionAssets_def isPublicPath_def split: option.splits)

lemma try_returns:
  "profile_query env = Resolved resp \<Longrightarrow> tour_completed env = Resolved t \<Longrightarrow>
     fst (processSession_try P env r (Some se) s) = None"
  by (simp add: processSession_try_def Let_def)

lemma try_no_session: "fst (processSession_try P env r None s) = None"
  by (simp add: processSession_try_def Let_def)

lemma processSession_try_throws:
  "fst (processSession_try P env r sess s) = Some e \<longleftrightarrow>
     (\<exists>se. sess = Some se
        \<and> (profile_query env = Rejected e
           \<or> (\<exists>resp. profile_query env = Resolved resp \<and> tour_completed env = Rejected e)))"
proof (cases sess)
  case None
  then show ?thesis by (simp add: try_no_session)
next
  case (Some se)
  show ?thesis
  proof (cases "profile_query env")
    case (Rejected e')
    with Some show ?thesis by (simp add: try_query_rejected)
  next
    case (Resolved resp)
    show ?thesis
    proof (cases "tour_completed env")
      case (Rejected e')
      with Some Resolved try_storage_thrown [OF Resolved Rejected, of P r se s]
      show ?thesis by simp
    next
      case inner: (Resolved t)
      with Some Resolved try_returns [OF Resolved inner, of P r se s]
      show ?thesis by simp
    qed
  qed
qed

lemma processSession_caught:
  assumes "fst (processSession_try P env r sess s) = Some e"
  shows "processSession P env r sess s
         = processSession_catch P (pathname r) e (snd (processSession_try P env r sess s))"
  using assms by (cases "processSession_try P env r sess s") (simp add: processSession_def)

lemma catch_logged_out:
  "currentUser (processSession_catch P path e s) = None
   \<and> galleryAssets (processSession_catch P path e s) = []
   \<and> collectionAssets (processSession_catch P path e s) = []
   \<and> loading (processSession_catch P path e s) = loading s"
  by (simp add: processSession_catch_def Let_def emit_def navigate_def)

lemma catch_public:
  "isPublicPath P path \<Longrightarrow>
     last (effects (processSession_catch P path e s))
       = ConsoleError ''Error in session processing:'' (Some e)
     \<and> pathname (processSession_catch P path e s) = pathname s"
  by (simp add: processSession_catch_def Let_def emit_def)

lemma catch_protected:
  "\<not> isPublicPath P path \<Longrightarrow>
     last (effects (processSession_catch P path e s)) = Navigate (LANDING P) True
     \<and> pathname (processSession_catch P path e s) = LANDING P"
  by (simp add: processSession_catch_def Let_def emit_def navigate_def)

lemma routes_logged_out:
  "currentUser s = None \<Longrightarrow>
     currentUser (render_routes P s) = None
     \<and> galleryAssets (render_routes P s) = galleryAssets s
     \<and> collectionAssets (render_routes P s) = collectionAssets s"
  by (simp add: render_routes_def navigate_def emit_def)

lemma routes_to_landing:
  "currentUser s = None \<Longrightarrow> \<not> loading s \<Longrightarrow> pathname s \<noteq> AUTH P \<Longrightarrow>
     pathname (render_routes P s) = LANDING P"
  by (simp add: render_routes_def navigate_def emit_def)

lemma js_or_spec:
  "js_or (case pr of None \<Rightarrow> None | Some p \<Rightarrow> profile.username p)
     (js_or (Some (case em of Some m \<Rightarrow> m | None \<Rightarrow> [])) ''ghost_user'')
   = spec_display_name pr em"
  by (auto simp: js_or_def spec_display_name_def truthy_def split: option.splits)

lemma profile_error_only_logged:
  assumes "profile_query env = Resolved \<lparr>data = None, error = Some pe\<rparr>"
    and "tour_completed env = Resolved t"
  shows "currentUser (processSession P env r (Some se) s) \<noteq> None
       \<and> ConsoleWarn ''Could not fetch user profile on auth change:'' (message pe)
           \<in> set (effects (processSession P env r (Some se) s))"
  using assms
  by (simp add: processSession_def processSession_try_def Let_def emit_def navigate_def
      fetchGalleryAssets_def fetchCollectionAssets_def)

text \<open>
  C7. When the profile query resolves (with a row, without one, or with an error in its
  result) and the projection runs to its end, the session's user is projected to a current
  user whose display name is the profile's username if a row with a non-empty username
  came back, else the session user's email if that is non-empty, else \<^verbatim>\<open>ghost_user\<close>.
  This holds for every render the projection is a closure of.
\<close>

theorem session_display_name:
  assumes "profile_query env = Resolved resp" and "tour_completed env = Resolved t"
  shows "currentUser (processSession P env r (Some se) s)
         = Some \<lparr>user.id' = supabase_user.id' (session.user se),
                 email = (case supabase_user.email (session.user se) of
                            Some m \<Rightarrow> m | None \<Rightarrow> []),
                 username = spec_display_name (data resp)
                              (supabase_user.email (session.user se)),
                 avatar = (case data resp of None \<Rightarrow> None | Some pr \<Rightarrow> avatar_url pr)\<rparr>"
  using assms
  by (simp add: processSession_def processSession_try_def Let_def emit_def navigate_def
      fetchGalleryAssets_def fetchCollectionAssets_def js_or_spec)

theorem session_display_name_witness:
  "profile_query no_profile_env = Resolved \<lparr>data = None, error = None\<rparr>
   \<and> tour_completed no_profile_env = Resolved (Some ''true'')
   \<and> currentUser (processSession demo_paths no_profile_env demo_logged_out (Some demo_session)
         demo_logged_out)
       = Some \<lparr>user.id' = ''u1'', email = ''ann@example.com'',
               username = ''ann@example.com'', avatar = None\<rparr>
   \<and> currentUser (processSession demo_paths no_profile_env demo_logged_out
         (Some anonymous_session) demo_logged_out)
       = Some \<lparr>user.id' = ''u2'', email = [], username = ''ghost_user'', avatar = None\<rparr>
   \<and> currentUser (processSession demo_paths profile_env demo_logged_out (Some demo_session)
         demo_logged_out)
       = Some \<lparr>user.id' = ''u1'', email = ''ann@example.com'', username = ''ann'',
               avatar = None\<rparr>"
proof -
  have q: "profile_query no_profile_env = Resolved \<lparr>data = None, error = None\<rparr>"
    and t: "tour_completed no_profile_env = Resolved (Some ''true'')"
    by (simp_all add: no_profile_env_def)
  have q': "profile_query profile_env
              = Resolved \<lparr>data = Some \<lparr>profile.username = Some ''ann'', avatar_url = None\<rparr>,
                          error = None\<rparr>"
    and t': "tour_completed profile_env = Resolved None"
    by (simp_all add: profile_env_def)
  from session_display_name [OF q t, of demo_paths demo_logged_out demo_session demo_logged_out]
    session_display_name [OF q t, of demo_paths demo_logged_out anonymous_session
      demo_logged_out]
    session_display_name [OF q' t', of demo_paths demo_logged_out demo_session demo_logged_out]
  show ?thesis
    using q t
    by (simp add: demo_session_def anonymous_session_def spec_display_name_def truthy_def)
qed

text \<open>
  C8. An error thrown during the projection other than a failure of the profile query (in
  the model: the read of the tour marker throws after the query has resolved) is caught:
  the current user is set to \<^verbatim>\<open>null\<close> and both lists are emptied, and the application ends
  on the landing route. If the route of the projection's render is not public, the
  \<^verbatim>\<open>catch\<close> block navigates there itself. If it is public, the \<^verbatim>\<open>try\<close> block had already
  navigated to the home route and the \<^verbatim>\<open>catch\<close> block does not navigate; the route table,
  rendered for no user, then redirects the home route to the landing route. The route
  table is rendered once the initial \<^verbatim>\<open>loading\<close> flag is off, and the home route is taken
  not to be the auth route.
\<close>

theorem session_error_fails_closed:
  assumes thrown: "fst (processSession_try P env r sess s) = Some e"
    and resolved: "profile_query env = Resolved resp"
    and shown: "\<not> loading s"
    and routes: "HOME P \<noteq> AUTH P"
  shows "currentUser (processSession P env r sess s) = None
       \<and> galleryAssets (processSession P env r sess s) = []
       \<and> collectionAssets (processSession P env r sess s) = []
       \<and> currentUser (render_routes P (processSession P env r sess s)) = None
       \<and> galleryAssets (render_routes P (processSession P env r sess s)) = []
       \<and> collectionAssets (render_routes P (processSession P env r sess s)) = []
       \<and> pathname (render_routes P (processSession P env r sess s)) = LANDING P
       \<and> (if isPublicPath P (pathname r)
          then pathname (processSession P env r sess s) = HOME P
          else pathname (processSession P env r sess s) = LANDING P
               \<and> last (effects (processSession P env r sess s)) = Navigate (LANDING P) True)"
proof -
  from thrown resolved obtain se where se: "sess = Some se"
    and storage: "tour_completed env = Rejected e"
    by (auto simp: processSession_try_throws)
  let ?t = "snd (processSession_try P env r sess s)"
  let ?f = "processSession P env r sess s"
  have f: "?f = processSession_catch P (pathname r) e ?t"
    by (rule processSession_caught [OF thrown])
  have t: "loading ?t = loading s"
    "pathname ?t = (if isPublicPath P (pathname r) then HOME P else pathname s)"
    using try_storage_thrown [OF resolved storage, of P r se s] by (simp_all add: se)
  have out: "currentUser ?f = None" "galleryAssets ?f = []" "collectionAssets ?f = []"
    "\<not> loading ?f"
    using catch_logged_out [of P "pathname r" e ?t] t(1) shown by (simp_all add: f)
  have path: "if isPublicPath P (pathname r) then pathname ?f = HOME P
              else pathname ?f = LANDING P \<and> last (effects ?f) = Navigate (LANDING P) True"
  proof (cases "isPublicPath P (pathname r)")
    case True
    with catch_public [OF True, of e ?t] t(2) show ?thesis by (simp add: f)
  next
    case False
    with catch_protected [OF False, of e ?t] show ?thesis by (simp add: f)
  qed
  have away: "pathname ?f \<noteq> AUTH P \<or> pathname ?f = LANDING P"
    using path routes by (cases "isPublicPath P (pathname r)") simp_all
  have landing: "pathname (render_routes P ?f) = LANDING P"
  proof (cases "pathname ?f = LANDING P")
    case True
    with out show ?thesis by (simp add: render_routes_def)
  next
    case False
    with away have "pathname ?f \<noteq> AUTH P" by simp
    from routes_to_landing [OF out(1) out(4) this] show ?thesis .
  qed
  from out routes_logged_out [OF out(1), of P] landing path show ?thesis by simp
qed

lemma storage_blocked_thrown:
  "fst (processSession_try demo_paths storage_blocked_env r (Some demo_session) s)
     = Some (Error ''The operation is insecure.'')"
  by (simp add: processSession_try_throws storage_blocked_env_def)

theorem session_error_fails_closed_witness:
  "fst (processSession_try demo_paths storage_blocked_env auth_page_state (Some demo_session)
          auth_page_state) = Some (Error ''The operation is insecure.'')
   \<and> profile_query storage_blocked_env = Resolved \<lparr>data = None, error = None\<rparr>
   \<and> \<not> loading auth_page_state
   \<and> HOME demo_paths \<noteq> AUTH demo_paths
   \<and> pathname auth_page_state = ''/auth''
   \<and> currentUser (processSession demo_paths storage_blocked_env auth_page_state
         (Some demo_session) auth_page_state) = None
   \<and> pathname (processSession demo_paths storage_blocked_env auth_page_state
         (Some demo_session) auth_page_state) = ''/dashboard''
   \<and> pathname (render_routes demo_paths (processSession demo_paths storage_blocked_env
         auth_page_state (Some demo_session) auth_page_state)) = ''/''
   \<and> pathname demo_gallery = ''/gallery''
   \<and> currentUser (processSession demo_paths storage_blocked_env demo_gallery
         (Some demo_session) demo_gallery) = None
   \<and> galleryAssets (processSession demo_paths storage_blocked_env demo_gallery
         (Some demo_session) demo_gallery) = []
   \<and> pathname (processSession demo_paths storage_blocked_env demo_gallery
         (Some demo_session) demo_gallery) = ''/''
   \<and> pathname (render_routes demo_paths (processSession demo_paths storage_blocked_env
         demo_gallery (Some demo_session) demo_gallery)) = ''/''"
proof -
  have q: "profile_query storage_blocked_env = Resolved \<lparr>data = None, error = None\<rparr>"
    by (simp add: storage_blocked_env_def)
  have l: "\<not> loading auth_page_state" "\<not> loading demo_gallery"
    by (simp_all add: auth_page_state_def demo_logged_out_def demo_gallery_def demo_state_def)
  have p: "HOME demo_paths \<noteq> AUTH demo_paths" "HOME demo_paths = ''/dashboard''"
    "LANDING demo_paths = ''/''"
    by (simp_all add: demo_paths_def)
  have a: "pathname auth_page_state = ''/auth''" "isPublicPath demo_paths ''/auth''"
    by (simp_all add: auth_page_state_def isPublicPath_def demo_paths_def)
  have g: "pathname demo_gallery = ''/gallery''" "\<not> isPublicPath demo_paths ''/gallery''"
    by (simp_all add: demo_gallery_def demo_state_def isPublicPath_def demo_paths_def)
  from session_error_fails_closed [OF storage_blocked_thrown q l(1) p(1), of auth_page_state]
    session_error_fails_closed [OF storage_blocked_thrown q l(2) p(1), of demo_gallery]
  show ?thesis
    using storage_blocked_thrown q l p a g by simp
qed

section \<open>Logout\<close>

text \<open>
  C10 at a failing input. When \<^verbatim>\<open>signOut\<close> resolves, with an error or without one, logout
  sets the current user to \<^verbatim>\<open>null\<close>, empties both lists and navigates to the landing
  route; an error in the result is written to the console and changes nothing else. When
  \<^verbatim>\<open>signOut\<close> rejects, the handler stops at the \<^verbatim>\<open>await\<close>: the user is still signed in
  locally, both lists are as they were and no navigation is made, so the remote failure
  has blocked the local logout.
\<close>

theorem logout_blocked_by_rejected_signout:
  "fst (handleLogout P (Resolved signOutError) s) = Returned ()
   \<and> currentUser (snd (handleLogout P (Resolved signOutError) s)) = None
   \<and> galleryAssets (snd (handleLogout P (Resolved signOutError) s)) = []
   \<and> collectionAssets (snd (handleLogout P (Resolved signOutError) s)) = []
   \<and> pathname (snd (handleLogout P (Resolved signOutError) s)) = LANDING P
   \<and> effects (snd (handleLogout P (Resolved signOutError) s))
       = effects s @ [Remote SignOut]
         @ (case signOutError of
              Some e \<Rightarrow> [ConsoleError ''Error logging out:'' (Some e)]
            | None \<Rightarrow> [])
         @ [Navigate (LANDING P) False]
   \<and> fst (handleLogout demo_paths (Rejected (Error ''Failed to fetch'')) demo_gallery)
       = Threw (Error ''Failed to fetch'')
   \<and> currentUser (snd (handleLogout demo_paths (Rejected (Error ''Failed to fetch''))
         demo_gallery)) = Some demo_user
   \<and> galleryAssets (snd (handleLogout demo_paths (Rejected (Error ''Failed to fetch''))
         demo_gallery)) = [demo_asset2, demo_asset]
   \<and> collectionAssets (snd (handleLogout demo_paths (Rejected (Error ''Failed to fetch''))
         demo_gallery)) = [demo_item]
   \<and> pathname (snd (handleLogout demo_paths (Rejected (Error ''Failed to fetch''))
         demo_gallery)) = ''/gallery''
   \<and> effects (snd (handleLogout demo_paths (Rejected (Error ''Failed to fetch''))
         demo_gallery)) = [Remote SignOut]"
  by (cases signOutError)
    (simp_all add: handleLogout_def Let_def emit_def navigate_def demo_gallery_def
      demo_state_def)

section \<open>Server-side rendering\<close>

lemma get_substitution_plain:
  "CHR ''$'' \<notin> set r \<Longrightarrow> get_substitution matched before after r = r"
  by (induction matched before after r rule: get_substitution.induct) auto

lemma split_first_sound:
  "split_first pat str = Some (before, after) \<Longrightarrow> str = before @ pat @ after"
proof (induction str arbitrary: before)
  case Nil
  then show ?case by (simp split: if_splits)
next
  case (Cons c cs)
  show ?case
  proof (cases "prefix pat (c # cs)")
    case True
    with Cons.prems have parts: "before = []" "after = drop (length pat) (c # cs)"
      by simp_all
    from True obtain zs where zs: "c # cs = pat @ zs" by (auto simp: prefix_def)
    then have "drop (length pat) (c # cs) = zs" by simp
    with parts zs show ?thesis by simp
  next
    case False
    with Cons.prems obtain b where "split_first pat cs = Some (b, after)" "before = c # b"
      by (auto split: option.splits)
    with Cons.IH [of b] show ?thesis by simp
  qed
qed

text \<open>
  What does hold of the handler: a failing step gives status 500 with the thrown error's
  message as the body (an empty body when the thrown value is not an error object), and
  rendered HTML without a dollar sign is spliced in place of the first occurrence of the
  token.
\<close>

lemma ssr_failure_response:
  "read_template env = Throws t
     \<or> (\<exists>tpl. read_template env = Succeeds tpl \<and> import_render env = Throws t)
     \<or> (\<exists>tpl render. read_template env = Succeeds tpl \<and> import_render env = Succeeds render
           \<and> render url = Throws t)
   \<Longrightarrow> ssr_handler env url
         = (\<lparr>status = 500, content_type = None,
             body = (case t of Thrown_error e \<Rightarrow> message e | Thrown_value \<Rightarrow> [])\<rparr>,
            [ConsoleErrorThrown ''SSR Error:'' t])"
  by (auto simp: ssr_handler_def ssr_failure_def thrown_message_def split: thrown.splits)

lemma ssr_success_plain:
  assumes "read_template env = Succeeds t" and "import_render env = Succeeds render"
    and "render url = Succeeds appHtml"
    and "split_first ''<!--ssr-outlet-->'' t = Some (before, after)"
    and "CHR ''$'' \<notin> set appHtml"
  shows "ssr_handler env url
           = (\<lparr>status = 200, content_type = Some ''text/html'',
               body = before @ appHtml @ after\<rparr>, [])
         \<and> t = before @ ''<!--ssr-outlet-->'' @ after"
  using assms split_first_sound [of "''<!--ssr-outlet-->''" t before after]
  by (simp add: ssr_handler_def js_replace_def get_substitution_plain)

text \<open>
  C9 at a failing input. The template holds the token once and the render function
  returns HTML that contains \<^verbatim>\<open>$&\<close>. \<^verbatim>\<open>String.prototype.replace\<close> reads \<^verbatim>\<open>$&\<close> in its
  second argument as the matched text, so the response, sent with status 200, holds the
  token again where the rendered HTML has \<^verbatim>\<open>$&\<close>: it is not the template with the token
  replaced by the render function's output.
\<close>

theorem ssr_dollar_pattern_response:
  "ssr_handler dollar_env ''/about''
     = (\<lparr>status = 200, content_type = Some ''text/html'',
         body = ''<main><p>R<!--ssr-outlet-->amp;D</p></main>''\<rparr>, [])
   \<and> body (fst (ssr_handler dollar_env ''/about'')) \<noteq> ''<main><p>R$&amp;D</p></main>''"
  by (simp add: ssr_handler_def dollar_env_def js_replace_def)

end
